theory Spec2Isabelle
  imports Complex_Main "HOL-Library.AList"
begin


section \<open>Common Python values\<close>

text \<open>
  Exceptions of the Python sources are values of \<open>error\<close>; a function that can raise
  returns \<open>error + 'a\<close> with \<open>Inl\<close> for the exception. Calls to remote services
  (RPC node, HTTP APIs, model pipelines) are parameters of the model: a record of
  functions that return \<open>None\<close> where the real call raises. Python floats are real
  numbers here: sums, products and comparisons are exact, where the interpreter rounds
  every result to a double.
\<close>

datatype error = KeyError | TypeError | AttributeError | RpcError | IOError | ExternalError

section \<open>contract\_poller.py\<close>

subsection \<open>Configuration (config.py)\<close>

record config =
  MAX_BLOCK_RANGE :: int
  AUTO_SUBMIT_THRESHOLD :: real

text \<open>The defaults of config.py: \<open>MAX_BLOCK_RANGE = 1000\<close>, \<open>AUTO_SUBMIT_THRESHOLD = 0.75\<close>.\<close>

definition default_config :: config where
  "default_config = \<lparr>MAX_BLOCK_RANGE = 1000, AUTO_SUBMIT_THRESHOLD = 75 / 100\<rparr>"

subsection \<open>Ledger logs and parsed events\<close>

text \<open>
  A raw log as \<open>get_logs\<close> returns it. A key that may be absent is an option: reading
  an absent key with \<open>[]\<close> raises \<open>KeyError\<close>, reading it with \<open>.get\<close> gives the
  default. Byte strings are represented by their hex text. \<open>arg_other\<close> holds the
  remaining entries of \<open>args\<close>.
\<close>

record raw_log =
  blockNumber :: "int option"
  transactionHash :: "string option"
  arg_tweetHash :: "string option"
  arg_depositor :: "string option"
  arg_recipient :: "string option"
  arg_ipAmount :: "int option"
  arg_validation :: "string option"
  arg_proof :: "string option"
  arg_other :: "(string \<times> string) list"

record event =
  block_number :: int
  transaction_hash :: string
  tweet_hash :: string
  depositor :: string
  recipient :: string
  ip_amount :: int
  validation :: string
  proof_blob :: string
  timestamp :: string
  optional :: "(string \<times> string) list"

definition optional_fields :: "string list" where
  "optional_fields =
     [''collectionAddress'', ''collectionConfig'', ''licenseTermsConfig'',
      ''licenseMintParams'', ''coCreators'']"

definition subscript :: "'a option \<Rightarrow> error + 'a" where
  "subscript v = (case v of None \<Rightarrow> Inl KeyError | Some x \<Rightarrow> Inr x)"

text \<open>Sequencing of steps that can raise: the first exception ends the computation.\<close>

definition raising :: "error + 'a \<Rightarrow> ('a \<Rightarrow> error + 'b) \<Rightarrow> error + 'b" where
  "raising r f = (case r of Inl err \<Rightarrow> Inl err | Inr x \<Rightarrow> f x)"

definition get_default :: "'a option \<Rightarrow> 'a \<Rightarrow> 'a" where
  "get_default v d = (case v of None \<Rightarrow> d | Some x \<Rightarrow> x)"

text \<open>\<open>_parse_event\<close>; \<open>now\<close> is \<open>datetime.utcnow().isoformat()\<close>.\<close>

definition parse_event :: "string \<Rightarrow> raw_log \<Rightarrow> error + event" where
  "parse_event now e =
     raising (subscript (arg_tweetHash e)) (\<lambda>th.
     raising (subscript (blockNumber e)) (\<lambda>bn.
     raising (subscript (transactionHash e)) (\<lambda>txh.
     raising (subscript (arg_depositor e)) (\<lambda>dep.
     raising (subscript (arg_recipient e)) (\<lambda>rcp.
     raising (subscript (arg_ipAmount e)) (\<lambda>amt.
       Inr \<lparr>block_number = bn,
            transaction_hash = txh,
            tweet_hash = th,
            depositor = dep,
            recipient = rcp,
            ip_amount = amt,
            validation = get_default (arg_validation e) [],
            proof_blob = get_default (arg_proof e) [],
            timestamp = now,
            optional = filter (\<lambda>(k, v). k \<in> set optional_fields) (arg_other e)\<rparr>))))))"

text \<open>The list comprehension \<open>[self._parse_event(e) for e in events]\<close>: the first
  log that fails to parse raises out of the whole comprehension.\<close>

fun parse_events :: "string \<Rightarrow> raw_log list \<Rightarrow> error + event list" where
  "parse_events now [] = Inr []"
| "parse_events now (e # es) =
     (case parse_event now e of
        Inl err \<Rightarrow> Inl err
      | Inr ev \<Rightarrow> (case parse_events now es of
                    Inl err \<Rightarrow> Inl err
                  | Inr evs \<Rightarrow> Inr (ev # evs)))"

subsection \<open>The ledger, the checkpoint file, the poller\<close>

text \<open>
  The node as one poll cycle sees it: \<open>eth_block_number\<close> is \<open>w3.eth.block_number\<close>,
  \<open>get_logs\<close> is \<open>contract.events.DepositProcessed.get_logs(from_block, to_block)\<close>;
  \<open>None\<close> is a raised exception.
\<close>

record ledger =
  eth_block_number :: "int option"
  get_logs :: "int \<Rightarrow> int \<Rightarrow> raw_log list option"

text \<open>
  The persisted block file holds the decimal text of one integer. Writing it can fail
  before the file is opened (\<open>mkdir\<close> or \<open>open\<close> raises: the old content stays), or
  after \<open>open(..., 'w')\<close> has truncated it.
\<close>

datatype block_file = No_file | Empty_file | Saved int

datatype write_outcome = Write_ok | Fails_before_open | Fails_after_open

record poller =
  last_processed_block :: int
  last_block_file :: block_file

definition save_last_processed_block :: "write_outcome \<Rightarrow> poller \<Rightarrow> int \<Rightarrow> error + poller" where
  "save_last_processed_block w p block_number' =
     (case w of
        Write_ok \<Rightarrow> Inr (p\<lparr>last_block_file := Saved block_number'\<rparr>)
      | Fails_before_open \<Rightarrow> Inl IOError
      | Fails_after_open \<Rightarrow> Inl IOError)"

text \<open>The state a failed write leaves behind (the exception carries no state).\<close>

definition after_failed_save :: "write_outcome \<Rightarrow> poller \<Rightarrow> poller" where
  "after_failed_save w p =
     (case w of
        Fails_after_open \<Rightarrow> p\<lparr>last_block_file := Empty_file\<rparr>
      | _ \<Rightarrow> p)"

text \<open>
  \<open>get_new_events\<close>. The result is the returned list together with the ledger queries
  the call performed, each as its \<open>(from_block, to_block)\<close> pair. The only exception
  that leaves the function is a failing \<open>w3.eth.block_number\<close> for a defaulted
  \<open>to_block\<close>.
\<close>

definition get_new_events ::
  "config \<Rightarrow> ledger \<Rightarrow> string \<Rightarrow> poller \<Rightarrow> int option \<Rightarrow> int option
     \<Rightarrow> error + (event list \<times> (int \<times> int) list)" where
  "get_new_events cfg node now p from_block to_block =
     (let from_block1 = (case from_block of
                           None \<Rightarrow> last_processed_block p + 1
                         | Some f \<Rightarrow> f)
      in case (case to_block of None \<Rightarrow> eth_block_number node | Some t \<Rightarrow> Some t) of
           None \<Rightarrow> Inl RpcError
         | Some to_block0 \<Rightarrow>
             (let to_block1 = (if to_block0 - from_block1 > MAX_BLOCK_RANGE cfg
                               then from_block1 + MAX_BLOCK_RANGE cfg
                               else to_block0)
              in if from_block1 > to_block1 then Inr ([], [])
                 else (case get_logs node from_block1 to_block1 of
                         None \<Rightarrow> Inr ([], [(from_block1, to_block1)])
                       | Some events \<Rightarrow>
                           (case parse_events now events of
                              Inl err \<Rightarrow> Inr ([], [(from_block1, to_block1)])
                            | Inr parsed \<Rightarrow> Inr (parsed, [(from_block1, to_block1)])))))"

text \<open>
  \<open>poll_once\<close>: the poller afterwards, the returned events, and the ledger queries
  performed. Every exception is caught and turns into an empty result.
\<close>

definition poll_once ::
  "config \<Rightarrow> ledger \<Rightarrow> write_outcome \<Rightarrow> string \<Rightarrow> poller
     \<Rightarrow> poller \<times> event list \<times> (int \<times> int) list" where
  "poll_once cfg node w now p =
     (case eth_block_number node of
        None \<Rightarrow> (p, [], [])
      | Some current_block \<Rightarrow>
          (case get_new_events cfg node now p None (Some current_block) of
             Inl err \<Rightarrow> (p, [], [])
           | Inr (events, queries) \<Rightarrow>
               if events \<noteq> [] then
                 (let p1 = p\<lparr>last_processed_block := current_block\<rparr>
                  in case save_last_processed_block w p1 current_block of
                       Inl err \<Rightarrow> (after_failed_save w p1, [], queries)
                     | Inr p2 \<Rightarrow> (p2, events, queries))
               else (p, events, queries)))"


section \<open>price\_aggregator.py\<close>

subsection \<open>Strings\<close>

text \<open>
  \<open>str.upper()\<close> and \<open>str.lower()\<close> as they act on ASCII text, which is what the
  token symbols, model labels and keywords of this program are: the letters a to z and
  A to Z are mapped, every other character is kept. (Python also maps letters outside
  ASCII; the uppercase of some of them is not a character below 256.) \<open>needle in hay\<close>
  and \<open>str.startswith\<close> follow.
\<close>

definition lower_letters :: string where
  "lower_letters = ''abcdefghijklmnopqrstuvwxyz''"

definition upper_letters :: string where
  "upper_letters = ''ABCDEFGHIJKLMNOPQRSTUVWXYZ''"

definition upper_char :: "char \<Rightarrow> char" where
  "upper_char c = get_default (map_of (zip lower_letters upper_letters) c) c"

definition lower_char :: "char \<Rightarrow> char" where
  "lower_char c = get_default (map_of (zip upper_letters lower_letters) c) c"

definition upper :: "string \<Rightarrow> string" where
  "upper s = map upper_char s"

definition lower :: "string \<Rightarrow> string" where
  "lower s = map lower_char s"

fun startswith :: "string \<Rightarrow> string \<Rightarrow> bool" where
  "startswith s [] = True"
| "startswith [] (p # ps) = False"
| "startswith (c # cs) (p # ps) = (c = p \<and> startswith cs ps)"

fun contains :: "string \<Rightarrow> string \<Rightarrow> bool" where
  "contains needle [] = startswith [] needle"
| "contains needle (c # cs) = (startswith (c # cs) needle \<or> contains needle cs)"

subsection \<open>Token table (config.py)\<close>

text \<open>\<open>SUPPORTED_TOKENS\<close>: symbol, chain, CoinGecko id.\<close>

definition SUPPORTED_TOKENS :: "(string \<times> string \<times> string) list" where
  "SUPPORTED_TOKENS =
     [(''BTC'', ''Bitcoin'', ''bitcoin''),
      (''ETH'', ''Ethereum'', ''ethereum''),
      (''SOL'', ''Solana'', ''solana''),
      (''ADA'', ''Cardano'', ''cardano''),
      (''DOT'', ''Polkadot'', ''polkadot''),
      (''AVAX'', ''Avalanche'', ''avalanche-2''),
      (''MATIC'', ''Polygon'', ''matic-network''),
      (''POL'', ''Polygon'', ''matic-network''),
      (''LINK'', ''Ethereum'', ''chainlink''),
      (''UNI'', ''Ethereum'', ''uniswap''),
      (''ATOM'', ''Cosmos'', ''cosmos''),
      (''XRP'', ''Ripple'', ''ripple''),
      (''DOGE'', ''Dogecoin'', ''dogecoin''),
      (''LTC'', ''Litecoin'', ''litecoin''),
      (''XLM'', ''Stellar'', ''stellar''),
      (''ALGO'', ''Algorand'', ''algorand''),
      (''FIL'', ''Filecoin'', ''filecoin''),
      (''ARB'', ''Arbitrum'', ''arbitrum''),
      (''BNB'', ''BNB Chain'', ''binancecoin''),
      (''USDC'', ''Multi-chain'', ''usd-coin''),
      (''USDT'', ''Multi-chain'', ''tether''),
      (''XDC'', ''XDC Network'', ''xdce-crowd-sale''),
      (''FLR'', ''Flare'', ''flare-networks'')]"

definition get_token_info :: "string \<Rightarrow> (string \<times> string) option" where
  "get_token_info symbol' = map_of SUPPORTED_TOKENS (upper symbol')"

subsection \<open>Quotes, cache, sources\<close>

text \<open>
  A value that the sources hand back as a timestamp: \<open>_get_from_coingecko\<close> and
  \<open>_get_from_binance\<close> build an ISO text, \<open>ftso_price.get_price_for\<close> returns
  whatever the oracle module gives.
\<close>

datatype pyval = Num real | Str string

text \<open>
  The dict that \<open>get_price\<close> returns. \<open>timestamp_unix\<close> is present in a response
  built from a source, \<open>error\<close> in the response for no source.
\<close>

record quote =
  symbol :: string
  price :: real
  quote_timestamp :: pyval
  source :: string
  success :: bool
  timestamp_unix :: "real option"
  quote_error :: "string option"

text \<open>
  The world outside: \<open>None\<close> stands for every way in which the call gives no price
  (exception, HTTP error status, malformed body, id absent from the body).
  \<open>coingecko_simple_price\<close> maps a CoinGecko id to the price and the ISO text of
  \<open>last_updated_at\<close>; \<open>binance_ticker_price\<close> maps a pair such as \<open>BTCUSDT\<close> to
  its price.
\<close>

record price_feeds =
  FTSO_AVAILABLE :: bool
  ftso_get_price_for :: "string \<Rightarrow> (real \<times> pyval) option"
  coingecko_simple_price :: "string \<Rightarrow> (real \<times> string) option"
  binance_ticker_price :: "string \<Rightarrow> real option"

text \<open>\<open>time.time()\<close> and \<open>datetime.utcnow().isoformat()\<close> at the moment of a call.\<close>

record clock =
  time_time :: real
  utcnow_isoformat :: string

record aggregator =
  price_cache :: "(string \<times> quote) list"
  cache_ttl :: real

text \<open>\<open>PriceAggregator.__init__\<close>: an empty cache and a TTL of 60 seconds.\<close>

definition new_aggregator :: aggregator where
  "new_aggregator = \<lparr>price_cache = [], cache_ttl = 60\<rparr>"

text \<open>
  \<open>_is_cache_valid\<close> reads the key \<open>timestamp\<close> of the cached dict and subtracts it
  from \<open>time.time()\<close>; subtracting a \<open>str\<close> from a \<open>float\<close> raises \<open>TypeError\<close>.
\<close>

definition is_cache_valid :: "clock \<Rightarrow> aggregator \<Rightarrow> string \<Rightarrow> error + bool" where
  "is_cache_valid clk agg symbol' =
     (case map_of (price_cache agg) symbol' of
        None \<Rightarrow> Inr False
      | Some cached \<Rightarrow>
          (case quote_timestamp cached of
             Num cached_time \<Rightarrow> Inr (time_time clk - cached_time < cache_ttl agg)
           | Str s \<Rightarrow> Inl TypeError))"

definition get_from_ftso :: "price_feeds \<Rightarrow> string \<Rightarrow> (real \<times> pyval) option" where
  "get_from_ftso feeds symbol' =
     (if \<not> FTSO_AVAILABLE feeds then None
      else (let test_symbol = (if \<not> startswith symbol' ''test'' then ''test'' @ symbol'
                               else symbol')
            in ftso_get_price_for feeds test_symbol))"

definition get_from_coingecko :: "price_feeds \<Rightarrow> string \<Rightarrow> (real \<times> pyval) option" where
  "get_from_coingecko feeds symbol' =
     (case get_token_info symbol' of
        None \<Rightarrow> None
      | Some (chain, coingecko_id) \<Rightarrow>
          if coingecko_id = [] then None
          else (case coingecko_simple_price feeds coingecko_id of
                  None \<Rightarrow> None
                | Some (p, ts) \<Rightarrow> Some (p, Str ts)))"

definition get_from_binance :: "price_feeds \<Rightarrow> clock \<Rightarrow> string \<Rightarrow> (real \<times> pyval) option" where
  "get_from_binance feeds clk symbol' =
     (let pair = symbol' @ ''USDT''
      in case binance_ticker_price feeds pair of
           None \<Rightarrow> None
         | Some p \<Rightarrow> Some (p, Str (utcnow_isoformat clk @ ''Z'')))"

text \<open>
  The loop over the sources in \<open>get_price\<close>: the first source with a result wins. The
  second component lists the sources that were called, in order.
\<close>

fun try_sources ::
  "(string \<times> (string \<Rightarrow> (real \<times> pyval) option)) list \<Rightarrow> string
     \<Rightarrow> (string \<times> real \<times> pyval) option \<times> string list" where
  "try_sources [] symbol' = (None, [])"
| "try_sources ((source_name, source_func) # rest) symbol' =
     (case source_func symbol' of
        Some (p, ts) \<Rightarrow> (Some (source_name, p, ts), [source_name])
      | None \<Rightarrow> (case try_sources rest symbol' of
                   (r, called) \<Rightarrow> (r, source_name # called)))"

definition sources ::
  "price_feeds \<Rightarrow> clock \<Rightarrow> (string \<times> (string \<Rightarrow> (real \<times> pyval) option)) list" where
  "sources feeds clk =
     [(''FTSO'', get_from_ftso feeds),
      (''CoinGecko'', get_from_coingecko feeds),
      (''Binance'', get_from_binance feeds clk)]"

text \<open>
  \<open>get_price\<close>: the returned dict or the exception, the aggregator afterwards, and the
  sources that were called.
\<close>

definition get_price ::
  "price_feeds \<Rightarrow> clock \<Rightarrow> aggregator \<Rightarrow> string \<Rightarrow> bool
     \<Rightarrow> (error + quote) \<times> aggregator \<times> string list" where
  "get_price feeds clk agg symbol0 use_cache =
     (let symbol' = upper symbol0
      in case (if use_cache then is_cache_valid clk agg symbol' else Inr False) of
           Inl err \<Rightarrow> (Inl err, agg, [])
         | Inr True \<Rightarrow>
             (case map_of (price_cache agg) symbol' of
                None \<Rightarrow> (Inl KeyError, agg, [])
              | Some cached \<Rightarrow> (Inr cached, agg, []))
         | Inr False \<Rightarrow>
             (case try_sources (sources feeds clk) symbol' of
                (Some (source_name, p, ts), called) \<Rightarrow>
                  (let response = \<lparr>symbol = symbol',
                                   price = p,
                                   quote_timestamp = ts,
                                   source = source_name,
                                   success = True,
                                   timestamp_unix = Some (time_time clk),
                                   quote_error = None\<rparr>
                   in (Inr response,
                       agg\<lparr>price_cache := AList.update symbol' response (price_cache agg)\<rparr>,
                       called))
              | (None, called) \<Rightarrow>
                  (Inr \<lparr>symbol = symbol',
                        price = 0,
                        quote_timestamp = Str (utcnow_isoformat clk @ ''Z''),
                        source = ''none'',
                        success = False,
                        timestamp_unix = None,
                        quote_error = Some ''All price sources failed''\<rparr>,
                   agg, called)))"


section \<open>huggingface\_sentiment.py\<close>

text \<open>
  The two model pipelines are parameters: each maps a text to the label and score of its
  first result, or to \<open>None\<close> when the call or the reading of its result raises. With
  local models the text is cut to its first 512 characters.
\<close>

record analyzer =
  use_api :: bool
  finbert :: "string \<Rightarrow> (string \<times> real) option"
  twitter_sentiment :: "string \<Rightarrow> (string \<times> real) option"

record model_sentiment =
  label :: string
  score :: real
  model :: string
  has_error :: bool

text \<open>The values that occur in the dict of \<open>analyze_multimodal\<close>.\<close>

datatype dictval = Float_val real | Int_val int | Str_val string | Dict_val model_sentiment

type_synonym dict = "(string \<times> dictval) list"

text \<open>\<open>d[key]\<close> used as a number, and \<open>d.get(key, default)\<close> used as a number.\<close>

definition number_at :: "dict \<Rightarrow> string \<Rightarrow> error + real" where
  "number_at d key =
     (case map_of d key of
        None \<Rightarrow> Inl KeyError
      | Some (Float_val x) \<Rightarrow> Inr x
      | Some (Int_val n) \<Rightarrow> Inr (real_of_int n)
      | Some (Str_val s) \<Rightarrow> Inl TypeError
      | Some (Dict_val m) \<Rightarrow> Inl TypeError)"

definition number_get :: "dict \<Rightarrow> string \<Rightarrow> real \<Rightarrow> error + real" where
  "number_get d key dflt =
     (case map_of d key of
        None \<Rightarrow> Inr dflt
      | Some (Float_val x) \<Rightarrow> Inr x
      | Some (Int_val n) \<Rightarrow> Inr (real_of_int n)
      | Some (Str_val s) \<Rightarrow> Inl TypeError
      | Some (Dict_val m) \<Rightarrow> Inl TypeError)"

definition model_input :: "analyzer \<Rightarrow> string \<Rightarrow> string" where
  "model_input a text' = (if use_api a then text' else take 512 text')"

definition analyze_financial_sentiment :: "analyzer \<Rightarrow> string \<Rightarrow> model_sentiment" where
  "analyze_financial_sentiment a text' =
     (case finbert a (model_input a text') of
        Some (l, s) \<Rightarrow> \<lparr>label = lower l, score = s, model = ''finbert'', has_error = False\<rparr>
      | None \<Rightarrow> \<lparr>label = ''neutral'', score = 5 / 10, model = ''finbert'', has_error = True\<rparr>)"

definition analyze_twitter_sentiment :: "analyzer \<Rightarrow> string \<Rightarrow> model_sentiment" where
  "analyze_twitter_sentiment a text' =
     (case twitter_sentiment a (model_input a text') of
        Some (l, s) \<Rightarrow>
          \<lparr>label = (if contains ''pos'' (lower l) then ''positive''
                    else if contains ''neg'' (lower l) then ''negative''
                    else ''neutral''),
           score = s, model = ''twitter-roberta'', has_error = False\<rparr>
      | None \<Rightarrow>
          \<lparr>label = ''neutral'', score = 5 / 10, model = ''twitter-roberta'', has_error = True\<rparr>)"

definition sentiment_map :: "(string \<times> real) list" where
  "sentiment_map = [(''positive'', 1), (''neutral'', 0), (''negative'', - 1)]"

text \<open>\<open>analyze_multimodal\<close>: \<open>sentiment_map[label]\<close> raises for a label outside the map.\<close>

definition analyze_multimodal :: "analyzer \<Rightarrow> string \<Rightarrow> error + dict" where
  "analyze_multimodal a text' =
     (let financial = analyze_financial_sentiment a text';
          twitter = analyze_twitter_sentiment a text'
      in raising (subscript (map_of sentiment_map (label financial))) (\<lambda>fin_sign.
         raising (subscript (map_of sentiment_map (label twitter))) (\<lambda>twt_sign.
           (let fin_value = fin_sign * score financial;
                twt_value = twt_sign * score twitter;
                combined_value = (fin_value * (6 / 10)) + (twt_value * (4 / 10));
                combined_label = (if combined_value > 2 / 10 then ''positive''
                                  else if combined_value < - (2 / 10) then ''negative''
                                  else ''neutral'');
                agreement = (if label financial = label twitter then 1 else 5 / 10);
                avg_confidence = (score financial + score twitter) / 2;
                confidence = agreement * avg_confidence
            in Inr [(''financial'', Dict_val financial),
                    (''twitter'', Dict_val twitter),
                    (''combined_label'', Str_val combined_label),
                    (''combined_score'', Float_val ((combined_value + 1) / 2)),
                    (''confidence'', Float_val confidence),
                    (''text_length'', Int_val (int (length text')))]))))"

definition controversy_keywords :: "string list" where
  "controversy_keywords =
     [''scam'', ''fraud'', ''rug'', ''dump'', ''crash'', ''moon'', ''lambos'',
      ''ponzi'', ''shitcoin'', ''pump'', ''fud'', ''manipulation'', ''insider'']"

definition get_controversy_score :: "analyzer \<Rightarrow> string \<Rightarrow> error + real" where
  "get_controversy_score a text' =
     raising (analyze_multimodal a text') (\<lambda>analysis.
     raising (number_at analysis ''combined_score'') (\<lambda>combined_score.
     raising (number_at analysis ''confidence'') (\<lambda>confidence.
       (let sentiment_extremity = \<bar>combined_score - 5 / 10\<bar> * 2;
            disagreement = 1 - confidence;
            text_lower = lower text';
            keyword_score =
              real (length (filter (\<lambda>kw. contains kw text_lower) controversy_keywords))
                / real (length controversy_keywords);
            controversy = sentiment_extremity * (4 / 10) + disagreement * (3 / 10)
                            + keyword_score * (3 / 10)
        in Inr (min 1 controversy)))))"

text \<open>The module-level \<open>analyze_tweet_sentiment\<close>, which adds the key \<open>controversy_score\<close>.\<close>

definition analyze_tweet_sentiment :: "analyzer \<Rightarrow> string \<Rightarrow> error + dict" where
  "analyze_tweet_sentiment a text' =
     raising (analyze_multimodal a text') (\<lambda>analysis.
     raising (get_controversy_score a text') (\<lambda>c.
       Inr (AList.update ''controversy_score'' (Float_val c) analysis)))"


section \<open>registry\_interaction.py\<close>

text \<open>The dict \<open>on_chain_data\<close> that \<open>store_on_chain\<close> hands to \<open>store_tweet\<close>.\<close>

record on_chain_data =
  oc_tweetHash :: string
  oc_tweetURL :: string
  oc_tweetId :: string
  oc_user :: string
  oc_handle :: string
  oc_verified :: bool
  oc_content :: string
  oc_timestamp :: int
  oc_likes :: nat
  oc_retweets :: nat
  oc_replies :: nat
  oc_controversyScore :: int
  oc_deletionLikelihood :: int
  oc_ipfsScreenshotCID :: string
  oc_ipfsDataCID :: string
  oc_filecoinRootCID :: string
  oc_filecoinDealId :: string
  oc_ecosystem :: string
  oc_submitter :: string

text \<open>
  The registry contract and its node. \<open>contract_exists\<close> is
  \<open>contract.functions.exists(hash).call()\<close>; \<open>None\<close> is a raised exception
  throughout. \<open>build_and_sign\<close> tells whether \<open>build_transaction\<close> and
  \<open>sign_transaction\<close> go through; \<open>send_raw_transaction\<close> gives the hex of the
  transaction hash.
\<close>

record registry =
  keccak :: "string \<Rightarrow> string"
  contract_exists :: "string \<Rightarrow> bool option"
  get_transaction_count :: "nat option"
  chain_id :: "nat option"
  estimate_gas :: "nat option"
  gas_price :: "nat option"
  build_and_sign :: bool
  send_raw_transaction :: "string option"

text \<open>
  What \<open>store_tweet\<close> does on the chain: the read-only existence check, and the write
  with its gas limit and gas price.
\<close>

datatype chain_call = Exists_call string | Send_raw_transaction on_chain_data int int

text \<open>Python's \<open>int(x)\<close> on a float: truncation towards zero.\<close>

definition py_int :: "real \<Rightarrow> int" where
  "py_int x = (if 0 \<le> x then \<lfloor>x\<rfloor> else \<lceil>x\<rceil>)"

definition store_tweet ::
  "registry \<Rightarrow> on_chain_data \<Rightarrow> (error + string option) \<times> chain_call list" where
  "store_tweet reg tweet_data_dict =
     (let tweet_hash = keccak reg (oc_tweetURL tweet_data_dict)
      in if contract_exists reg tweet_hash = Some True
         then (Inr None, [Exists_call tweet_hash])
         else (case get_transaction_count reg of
                 None \<Rightarrow> (Inl RpcError, [Exists_call tweet_hash])
               | Some nonce \<Rightarrow>
                   (case chain_id reg of
                      None \<Rightarrow> (Inl RpcError, [Exists_call tweet_hash])
                    | Some cid \<Rightarrow>
                        (let gas_limit = (case estimate_gas reg of
                                            Some estimated_gas \<Rightarrow>
                                              py_int (real estimated_gas * (13 / 10))
                                          | None \<Rightarrow> 5000000);
                             gas_price' = (case gas_price reg of
                                             Some base_gas_price \<Rightarrow>
                                               py_int (real base_gas_price * (15 / 10))
                                           | None \<Rightarrow> 50000000000)
                         in if \<not> build_and_sign reg
                            then (Inl RpcError, [Exists_call tweet_hash])
                            else (case send_raw_transaction reg of
                                    None \<Rightarrow>
                                      (Inl RpcError,
                                       [Exists_call tweet_hash,
                                        Send_raw_transaction tweet_data_dict gas_limit gas_price'])
                                  | Some tx_hash_hex \<Rightarrow>
                                      (Inr (Some tx_hash_hex),
                                       [Exists_call tweet_hash,
                                        Send_raw_transaction tweet_data_dict gas_limit
                                          gas_price']))))))"

section \<open>main\_daemon.py\<close>

subsection \<open>Locator extraction (contract\_poller.py)\<close>

text \<open>
  \<open>str.strip()\<close>: the characters below 256 for which \<open>str.isspace\<close> holds are
  removed from both ends.
\<close>

definition isspace :: "char \<Rightarrow> bool" where
  "isspace c = (c \<in> set [CHR 0x09, CHR 0x0A, CHR 0x0B, CHR 0x0C, CHR 0x0D, CHR 0x1C,
                          CHR 0x1D, CHR 0x1E, CHR 0x1F, CHR 0x20, CHR 0x85, CHR 0xA0])"

definition strip :: "string \<Rightarrow> string" where
  "strip s = rev (dropWhile isspace (rev (dropWhile isspace s)))"

definition extract_tweet_url :: "event \<Rightarrow> string option" where
  "extract_tweet_url ev =
     (if contains ''twitter.com'' (validation ev) \<or> contains ''x.com'' (validation ev)
      then Some (strip (validation ev))
      else None)"

subsection \<open>Data of the daemon\<close>

record tweet_data =
  td_url :: string
  td_content :: string
  td_user :: string
  td_handle :: string
  td_timestamp :: string
  td_verified :: bool
  td_likes :: string
  td_retweets :: string
  td_replies :: string
  td_tweet_id :: string
  td_ipfs_screenshot :: string

record ecosystem_info =
  token :: string
  confidence :: real

record analysis =
  deletion_likelihood :: real
  analysis_text :: string
  sentiment :: "dict option"
  ecosystem :: "ecosystem_info option"
  combined_controversy :: real

record storage_result =
  ipfs_cid :: string
  root_cid :: string
  deal_id :: "string option"

record stats =
  tweets_processed :: nat
  tweets_stored :: nat
  tweets_registered :: nat
  tweets_resubmitted :: nat
  errors :: nat

text \<open>
  The collaborators that the daemon holds. A component that failed to initialise is
  \<open>None\<close>. \<open>classify_tweet\<close> and \<open>submit_tweet\<close> give \<open>None\<close> when they raise.
\<close>

record classifier =
  classify_tweet :: "string \<Rightarrow> ecosystem_info option"

record submitter =
  submit_tweet :: "string \<Rightarrow> real \<Rightarrow> string option"

record daemon =
  sentiment_analyzer :: "analyzer option"
  classifier :: "classifier option"
  price_aggregator :: "aggregator option"
  submitter :: "submitter option"
  registry :: "registry option"
  stats :: stats

text \<open>
  What lies outside the daemon during one event: \<open>ai_analysis.analyze_tweet\<close>, the
  price feeds, whether the local data file can be written, and the outcome of
  \<open>storage.store_file\<close>.
\<close>

record world =
  analyze_tweet :: "string \<Rightarrow> (real \<times> string) option"
  w_feeds :: price_feeds
  data_file_writable :: bool
  store_file :: "storage_result option"

text \<open>The calls that processing one event issues to its collaborators, in order.\<close>

datatype action =
    Scrape string
  | Analyze string
  | Price_source string
  | Store_file
  | Registry chain_call
  | Resubmit string real

subsection \<open>Stages\<close>

text \<open>\<open>s.split("/")[-1]\<close>: the part after the last slash.\<close>

definition last_segment :: "string \<Rightarrow> string" where
  "last_segment s = rev (takeWhile (\<lambda>c. c \<noteq> CHR ''/'') (rev s))"

definition scrape_single_tweet :: "clock \<Rightarrow> string \<Rightarrow> tweet_data option" where
  "scrape_single_tweet clk tweet_url =
     Some \<lparr>td_url = tweet_url,
           td_content = ''Sample tweet content for testing'',
           td_user = ''Test User'',
           td_handle = ''@testuser'',
           td_timestamp = utcnow_isoformat clk,
           td_verified = False,
           td_likes = ''0'',
           td_retweets = ''0'',
           td_replies = ''0'',
           td_tweet_id = last_segment tweet_url,
           td_ipfs_screenshot = []\<rparr>"

text \<open>
  \<open>analyze_tweet_content\<close>. The sentiment dict is the result of \<open>analyze_multimodal\<close>;
  the value of \<open>get_controversy_score\<close> goes to the local variable
  \<open>controversy_from_sentiment\<close>, which is logged and not used again.
\<close>

definition analyze_tweet_content :: "daemon \<Rightarrow> world \<Rightarrow> tweet_data \<Rightarrow> error + analysis" where
  "analyze_tweet_content d w tweet =
     (let content = td_content tweet
      in case analyze_tweet w content of
           None \<Rightarrow> Inl ExternalError
         | Some (deletion_score, analysis_text') \<Rightarrow>
             (let sentiment' =
                    (case sentiment_analyzer d of
                       None \<Rightarrow> None
                     | Some a \<Rightarrow>
                         (case analyze_multimodal a content of
                            Inl err \<Rightarrow> None
                          | Inr s \<Rightarrow>
                              (case get_controversy_score a content of
                                 Inl err \<Rightarrow> Some s
                               | Inr controversy_from_sentiment \<Rightarrow> Some s)));
                  ecosystem' =
                    (case classifier d of
                       None \<Rightarrow> None
                     | Some c \<Rightarrow> classify_tweet c content)
              in raising
                   (case sentiment' of
                      None \<Rightarrow> Inr deletion_score
                    | Some s \<Rightarrow>
                        if s = [] then Inr deletion_score
                        else raising (number_get s ''controversy_score'' 0) (\<lambda>c.
                               Inr ((deletion_score * (6 / 10)) + (c * (4 / 10)))))
                   (\<lambda>combined_score.
                      Inr \<lparr>deletion_likelihood = deletion_score,
                           analysis_text = analysis_text',
                           sentiment = sentiment',
                           ecosystem = ecosystem',
                           combined_controversy = combined_score\<rparr>)))"

text \<open>
  \<open>store_to_filecoin\<close>: the optional price lookup (its exceptions are caught), the
  local data file, then the storage pipeline. The result comes with the daemon, whose
  price cache the lookup may have filled, and with the calls made.
\<close>

definition store_to_filecoin ::
  "daemon \<Rightarrow> world \<Rightarrow> clock \<Rightarrow> tweet_data \<Rightarrow> analysis
     \<Rightarrow> (error + storage_result) \<times> daemon \<times> action list" where
  "store_to_filecoin d w clk tweet an =
     (let (d1, lookups) =
            (case (price_aggregator d, ecosystem an) of
               (Some agg, Some eco) \<Rightarrow>
                 if token eco \<noteq> ''UNKNOWN''
                 then (case get_price (w_feeds w) clk agg (token eco) True of
                         (r, agg', called) \<Rightarrow>
                           (d\<lparr>price_aggregator := Some agg'\<rparr>, map Price_source called))
                 else (d, [])
             | _ \<Rightarrow> (d, []))
      in if \<not> data_file_writable w then (Inl IOError, d1, lookups)
         else (case store_file w of
                 None \<Rightarrow> (Inl ExternalError, d1, lookups @ [Store_file])
               | Some storage_result' \<Rightarrow> (Inr storage_result', d1, lookups @ [Store_file])))"

text \<open>
  \<open>_safe_int\<close> on a text: the characters with \<open>str.isdigit\<close> are kept (below 256
  these are the decimal digits and the superscripts one, two and three), nothing left
  gives 0, and \<open>int\<close> raises on a superscript, which the handler turns into 0.
\<close>

definition digit_value :: "char \<Rightarrow> nat option" where
  "digit_value c = map_of (zip ''0123456789'' [0, 1, 2, 3, 4, 5, 6, 7, 8, 9]) c"

definition isdigit :: "char \<Rightarrow> bool" where
  "isdigit c = (digit_value c \<noteq> None \<or> c \<in> set [CHR 0xB2, CHR 0xB3, CHR 0xB9])"

definition safe_int :: "string \<Rightarrow> nat" where
  "safe_int v =
     (let digits = filter isdigit v
      in if digits = [] then 0
         else if list_all (\<lambda>c. digit_value c \<noteq> None) digits
         then foldl (\<lambda>n c. case digit_value c of None \<Rightarrow> n | Some k \<Rightarrow> 10 * n + k) 0 digits
         else 0)"

text \<open>
  \<open>store_on_chain\<close>: the transaction hash or \<open>None\<close>, the statistics afterwards, and
  the calls made on the chain. Building \<open>on_chain_data\<close> raises \<open>AttributeError\<close>
  when the analysis holds \<open>None\<close> under \<open>ecosystem\<close>; that and every exception of
  \<open>store_tweet\<close> are caught and give \<open>None\<close>.
\<close>

definition store_on_chain ::
  "daemon \<Rightarrow> clock \<Rightarrow> tweet_data \<Rightarrow> analysis \<Rightarrow> storage_result \<Rightarrow> string option
     \<Rightarrow> string option \<times> stats \<times> chain_call list" where
  "store_on_chain d clk tweet an storage_result' submitter' =
     (case registry d of
        None \<Rightarrow> (None, stats d, [])
      | Some reg \<Rightarrow>
          (case ecosystem an of
             None \<Rightarrow> (None, stats d, [])
           | Some eco \<Rightarrow>
               (let on_chain =
                      \<lparr>oc_tweetHash = keccak reg (td_url tweet),
                       oc_tweetURL = td_url tweet,
                       oc_tweetId = td_tweet_id tweet,
                       oc_user = td_user tweet,
                       oc_handle = td_handle tweet,
                       oc_verified = td_verified tweet,
                       oc_content = td_content tweet,
                       oc_timestamp = py_int (time_time clk),
                       oc_likes = safe_int (td_likes tweet),
                       oc_retweets = safe_int (td_retweets tweet),
                       oc_replies = safe_int (td_replies tweet),
                       oc_controversyScore = py_int (combined_controversy an * 100),
                       oc_deletionLikelihood = py_int (deletion_likelihood an * 100),
                       oc_ipfsScreenshotCID =
                         (if td_ipfs_screenshot tweet \<noteq> []
                          then last_segment (td_ipfs_screenshot tweet) else []),
                       oc_ipfsDataCID = ipfs_cid storage_result',
                       oc_filecoinRootCID = root_cid storage_result',
                       oc_filecoinDealId = get_default (deal_id storage_result') ''None'',
                       oc_ecosystem = token eco,
                       oc_submitter =
                         (case submitter' of
                            None \<Rightarrow> ''0x0000000000000000000000000000000000000000''
                          | Some s \<Rightarrow>
                              if s = [] then ''0x0000000000000000000000000000000000000000''
                              else s)\<rparr>
                in case store_tweet reg on_chain of
                     (Inl err, calls) \<Rightarrow> (None, stats d, calls)
                   | (Inr None, calls) \<Rightarrow> (None, stats d, calls)
                   | (Inr (Some tx_hash), calls) \<Rightarrow>
                       if tx_hash \<noteq> []
                       then (Some tx_hash,
                             (stats d)\<lparr>tweets_registered := tweets_registered (stats d) + 1\<rparr>,
                             calls)
                       else (None, stats d, calls))))"

text \<open>
  Step 5 of \<open>process_tweet_event\<close>, the resubmission: the statistics afterwards and the
  calls made. A raising \<open>submit_tweet\<close> is caught and only logged.
\<close>

definition resubmit ::
  "config \<Rightarrow> daemon \<Rightarrow> string \<Rightarrow> real \<Rightarrow> stats \<times> action list" where
  "resubmit cfg d tweet_url controversy =
     (case submitter d of
        None \<Rightarrow> (stats d, [])
      | Some s \<Rightarrow>
          if controversy \<ge> AUTO_SUBMIT_THRESHOLD cfg
          then (case submit_tweet s tweet_url controversy of
                  None \<Rightarrow> (stats d, [Resubmit tweet_url controversy])
                | Some tx_hash \<Rightarrow>
                    ((stats d)\<lparr>tweets_resubmitted := tweets_resubmitted (stats d) + 1\<rparr>,
                     [Resubmit tweet_url controversy]))
          else (stats d, []))"

definition count_error :: "daemon \<Rightarrow> daemon" where
  "count_error d = d\<lparr>stats := (stats d)\<lparr>errors := errors (stats d) + 1\<rparr>\<rparr>"

definition count_processed :: "daemon \<Rightarrow> daemon" where
  "count_processed d =
     d\<lparr>stats := (stats d)\<lparr>tweets_processed := tweets_processed (stats d) + 1\<rparr>\<rparr>"

definition count_stored :: "daemon \<Rightarrow> daemon" where
  "count_stored d =
     d\<lparr>stats := (stats d)\<lparr>tweets_stored := tweets_stored (stats d) + 1\<rparr>\<rparr>"

text \<open>
  \<open>process_tweet_event\<close>: the daemon afterwards and the calls made. An exception of a
  stage is caught by the outer handler, which counts an error and ends the event.
\<close>

definition process_tweet_event ::
  "config \<Rightarrow> daemon \<Rightarrow> world \<Rightarrow> clock \<Rightarrow> event \<Rightarrow> daemon \<times> action list" where
  "process_tweet_event cfg d w clk ev =
     (case extract_tweet_url ev of
        None \<Rightarrow> (count_error d, [])
      | Some tweet_url \<Rightarrow>
          if tweet_url = [] then (count_error d, [])
          else
            (case scrape_single_tweet clk tweet_url of
               None \<Rightarrow> (count_error d, [Scrape tweet_url])
             | Some tweet \<Rightarrow>
                 (let d1 = count_processed d;
                      acts1 = [Scrape tweet_url, Analyze (td_content tweet)]
                  in case analyze_tweet_content d1 w tweet of
                       Inl err \<Rightarrow> (count_error d1, acts1)
                     | Inr an \<Rightarrow>
                         (case store_to_filecoin d1 w clk tweet an of
                            (Inl err, d2, acts2) \<Rightarrow> (count_error d2, acts1 @ acts2)
                          | (Inr storage_result', d2, acts2) \<Rightarrow>
                              (let d3 = count_stored d2
                               in case store_on_chain d3 clk tweet an storage_result'
                                         (Some (depositor ev)) of
                                    (registry_tx, stats4, calls) \<Rightarrow>
                                      (let d4 = d3\<lparr>stats := stats4\<rparr>
                                       in case resubmit cfg d4 tweet_url
                                                 (combined_controversy an) of
                                            (stats5, acts5) \<Rightarrow>
                                              (d4\<lparr>stats := stats5\<rparr>,
                                               acts1 @ acts2 @ map Registry calls
                                                 @ acts5)))))))"

text \<open>The resubmission calls and the on-chain writes among the calls of an event.\<close>

fun resubmissions :: "action list \<Rightarrow> (string \<times> real) list" where
  "resubmissions [] = []"
| "resubmissions (Resubmit u c # as) = (u, c) # resubmissions as"
| "resubmissions (a # as) = resubmissions as"

fun is_write :: "chain_call \<Rightarrow> bool" where
  "is_write (Send_raw_transaction data gas_limit gas_price') = True"
| "is_write (Exists_call h) = False"

fun registry_writes :: "action list \<Rightarrow> chain_call list" where
  "registry_writes [] = []"
| "registry_writes (Registry c # as) = (if is_write c then c # registry_writes as
                                        else registry_writes as)"
| "registry_writes (a # as) = registry_writes as"

fun scrapes :: "action list \<Rightarrow> string list" where
  "scrapes [] = []"
| "scrapes (Scrape u # as) = u # scrapes as"
| "scrapes (a # as) = scrapes as"


section \<open>Concrete scenarios\<close>

subsection \<open>Ledgers and pollers\<close>

definition poller_at_100 :: poller where
  "poller_at_100 = \<lparr>last_processed_block = 100, last_block_file = Saved 100\<rparr>"

definition deposit_log :: raw_log where
  "deposit_log =
     \<lparr>blockNumber = Some 500,
      transactionHash = Some ''ab'',
      arg_tweetHash = Some ''cd'',
      arg_depositor = Some ''0x01'',
      arg_recipient = Some ''0x02'',
      arg_ipAmount = Some 1,
      arg_validation = Some ''https://x.com/user/status/123'',
      arg_proof = None,
      arg_other = []\<rparr>"

definition busy_ledger :: ledger where
  "busy_ledger =
     \<lparr>eth_block_number = Some 2000,
      get_logs = (\<lambda>f t. if f \<le> 500 \<and> 500 \<le> t then Some [deposit_log] else Some [])\<rparr>"




text \<open>A chain at height 150 with one deposit in block 120.\<close>

definition recent_log :: raw_log where
  "recent_log = deposit_log\<lparr>blockNumber := Some 120\<rparr>"

definition live_ledger :: ledger where
  "live_ledger =
     \<lparr>eth_block_number = Some 150,
      get_logs = (\<lambda>f t. if f \<le> 120 \<and> 120 \<le> t then Some [recent_log] else Some [])\<rparr>"

subsection \<open>Price feeds, clocks and caches\<close>

definition clock_1000 :: clock where
  "clock_1000 = \<lparr>time_time = 1000, utcnow_isoformat = ''1970-01-01T00:16:40''\<rparr>"

definition clock_1001 :: clock where
  "clock_1001 = \<lparr>time_time = 1001, utcnow_isoformat = ''1970-01-01T00:16:41''\<rparr>"

definition clock_2000 :: clock where
  "clock_2000 = \<lparr>time_time = 2000, utcnow_isoformat = ''1970-01-01T00:33:20''\<rparr>"

text \<open>Only Binance answers, with a price for BTCUSDT.\<close>

definition feeds_binance_up :: price_feeds where
  "feeds_binance_up =
     \<lparr>FTSO_AVAILABLE = False,
      ftso_get_price_for = (\<lambda>s. None),
      coingecko_simple_price = (\<lambda>i. None),
      binance_ticker_price = (\<lambda>pair. if pair = ''BTCUSDT'' then Some 42000 else None)\<rparr>"

text \<open>No source answers.\<close>

definition feeds_down :: price_feeds where
  "feeds_down =
     \<lparr>FTSO_AVAILABLE = True,
      ftso_get_price_for = (\<lambda>s. None),
      coingecko_simple_price = (\<lambda>i. None),
      binance_ticker_price = (\<lambda>pair. None)\<rparr>"

text \<open>The response that \<open>get_price\<close> builds from the Binance price at time 1000.\<close>

definition btc_quote :: quote where
  "btc_quote =
     \<lparr>symbol = ''BTC'',
      price = 42000,
      quote_timestamp = Str ''1970-01-01T00:16:40Z'',
      source = ''Binance'',
      success = True,
      timestamp_unix = Some 1000,
      quote_error = None\<rparr>"

definition aggregator_with_btc :: aggregator where
  "aggregator_with_btc = \<lparr>price_cache = [(''BTC'', btc_quote)], cache_ttl = 60\<rparr>"

subsection \<open>Daemons and their surroundings\<close>

text \<open>Both models call every text positive with full confidence.\<close>

definition agreeing_analyzer :: analyzer where
  "agreeing_analyzer =
     \<lparr>use_api = False,
      finbert = (\<lambda>t. Some (''positive'', 1)),
      twitter_sentiment = (\<lambda>t. Some (''positive'', 1))\<rparr>"

definition zero_stats :: stats where
  "zero_stats =
     \<lparr>tweets_processed = 0, tweets_stored = 0, tweets_registered = 0,
      tweets_resubmitted = 0, errors = 0\<rparr>"

definition daemon_with_sentiment :: daemon where
  "daemon_with_sentiment =
     \<lparr>sentiment_analyzer = Some agreeing_analyzer,
      classifier = None,
      price_aggregator = None,
      submitter = None,
      registry = None,
      stats = zero_stats\<rparr>"

definition sample_storage_result :: storage_result where
  "sample_storage_result = \<lparr>ipfs_cid = ''Qm1'', root_cid = ''bafy1'', deal_id = None\<rparr>"

text \<open>\<open>analyze_tweet\<close> gives every text a deletion likelihood of one half.\<close>

definition world_half :: world where
  "world_half =
     \<lparr>analyze_tweet = (\<lambda>c. Some (1 / 2, ''analysis'')),
      w_feeds = feeds_down,
      data_file_writable = True,
      store_file = Some sample_storage_result\<rparr>"

definition sample_tweet :: tweet_data where
  "sample_tweet =
     \<lparr>td_url = ''https://x.com/user/status/123'',
      td_content = ''Sample tweet content for testing'',
      td_user = ''Test User'',
      td_handle = ''@testuser'',
      td_timestamp = ''1970-01-01T00:16:40'',
      td_verified = False,
      td_likes = ''0'',
      td_retweets = ''0'',
      td_replies = ''0'',
      td_tweet_id = ''123'',
      td_ipfs_screenshot = []\<rparr>"

text \<open>A registry in which every hash is already present.\<close>

definition registry_with_all :: registry where
  "registry_with_all =
     \<lparr>keccak = (\<lambda>s. ''keccak:'' @ s),
      contract_exists = (\<lambda>h. Some True),
      get_transaction_count = Some 7,
      chain_id = Some 314,
      estimate_gas = Some 100000,
      gas_price = Some 1000,
      build_and_sign = True,
      send_raw_transaction = Some ''0xaa''\<rparr>"

definition btc_classifier :: classifier where
  "btc_classifier = \<lparr>classify_tweet = (\<lambda>t. Some \<lparr>token = ''BTC'', confidence = 9 / 10\<rparr>)\<rparr>"

text \<open>A submitter that accepts the locator of the sample tweet with the score 0.80 and
  raises on every other call.\<close>

definition picky_submitter :: submitter where
  "picky_submitter =
     \<lparr>submit_tweet = (\<lambda>u c. if u = ''https://x.com/user/status/123'' \<and> c = 8 / 10
                               then Some ''0xbb'' else None)\<rparr>"

text \<open>A daemon without sentiment analyzer: the combined score is the deletion likelihood.\<close>

definition full_daemon :: daemon where
  "full_daemon =
     \<lparr>sentiment_analyzer = None,
      classifier = Some btc_classifier,
      price_aggregator = Some new_aggregator,
      submitter = Some picky_submitter,
      registry = Some registry_with_all,
      stats = zero_stats\<rparr>"

text \<open>\<open>analyze_tweet\<close> gives every text a deletion likelihood of 0.80.\<close>

definition world_hot :: world where
  "world_hot =
     \<lparr>analyze_tweet = (\<lambda>c. Some (8 / 10, ''analysis'')),
      w_feeds = feeds_down,
      data_file_writable = True,
      store_file = Some sample_storage_result\<rparr>"

definition link_event :: event where
  "link_event =
     \<lparr>block_number = 500,
      transaction_hash = ''ab'',
      tweet_hash = ''cd'',
      depositor = ''0x01'',
      recipient = ''0x02'',
      ip_amount = 1,
      validation = ''https://x.com/user/status/123'',
      proof_blob = [],
      timestamp = ''1970-01-01T00:16:40'',
      optional = []\<rparr>"

definition no_link_event :: event where
  "no_link_event = link_event\<lparr>validation := ''not a link''\<rparr>"

text \<open>The analysis of the sample tweet in \<open>world_hot\<close> by \<open>full_daemon\<close>.\<close>

definition hot_analysis :: analysis where
  "hot_analysis =
     \<lparr>deletion_likelihood = 8 / 10,
      analysis_text = ''analysis'',
      sentiment = None,
      ecosystem = Some \<lparr>token = ''BTC'', confidence = 9 / 10\<rparr>,
      combined_controversy = 8 / 10\<rparr>"

text \<open>A configuration with the resubmission threshold raised to 0.90.\<close>

definition strict_config :: config where
  "strict_config = \<lparr>MAX_BLOCK_RANGE = 1000, AUTO_SUBMIT_THRESHOLD = 9 / 10\<rparr>"


section \<open>Substring search\<close>

text \<open>\<open>startswith\<close> and \<open>contains\<close> are prefix and substring tests.\<close>

lemma startswith_iff: "startswith s p \<longleftrightarrow> (\<exists>rest. s = p @ rest)"
  by (induction s p rule: startswith.induct) auto

lemma contains_iff: "contains needle hay \<longleftrightarrow> (\<exists>before after. hay = before @ needle @ after)"
proof (induction hay)
  case Nil
  show ?case by (cases needle) auto
next
  case (Cons c cs)
  show ?case
  proof
    assume "contains needle (c # cs)"
    then consider "startswith (c # cs) needle" | "contains needle cs" by auto
    then show "\<exists>before after. c # cs = before @ needle @ after"
    proof cases
      case 1
      then obtain rest where "c # cs = needle @ rest" using startswith_iff by blast
      then have "c # cs = [] @ needle @ rest" by simp
      then show ?thesis by blast
    next
      case 2
      with Cons obtain before after where "cs = before @ needle @ after" by blast
      then have "c # cs = (c # before) @ needle @ after" by simp
      then show ?thesis by blast
    qed
  next
    assume "\<exists>before after. c # cs = before @ needle @ after"
    then obtain before after where e: "c # cs = before @ needle @ after" by blast
    show "contains needle (c # cs)"
    proof (cases before)
      case Nil
      with e have "startswith (c # cs) needle" using startswith_iff by auto
      then show ?thesis by simp
    next
      case (Cons b bs)
      with e have "cs = bs @ needle @ after" by simp
      with Cons.IH have "contains needle cs" by blast
      then show ?thesis by simp
    qed
  qed
qed


section \<open>Properties of the poller\<close>

text \<open>
  C5. For every pair of heights with \<open>from_height > to_height\<close>, \<open>get_new_events\<close>
  called with those explicit bounds returns the empty list and performs no ledger
  query. This holds for every configured span, every ledger and every poller state.
\<close>

theorem get_new_events_inverted_range:
  assumes "from_height > to_height"
  shows "get_new_events cfg node now p (Some from_height) (Some to_height) = Inr ([], [])"
proof (cases "to_height - from_height > MAX_BLOCK_RANGE cfg")
  case True
  with assms have "MAX_BLOCK_RANGE cfg < 0" by linarith
  then have "from_height > from_height + MAX_BLOCK_RANGE cfg" by simp
  with True show ?thesis by (simp add: get_new_events_def)
next
  case False
  with assms show ?thesis by (simp add: get_new_events_def)
qed

theorem get_new_events_inverted_range_witness:
  "(10::int) > 7 \<and>
   get_new_events default_config \<lparr>eth_block_number = Some 20, get_logs = (\<lambda>f t. None)\<rparr> ''t''
     \<lparr>last_processed_block = 0, last_block_file = No_file\<rparr> (Some 10) (Some 7) = Inr ([], [])"
  using get_new_events_inverted_range [of 7 10 default_config
      "\<lparr>eth_block_number = Some 20, get_logs = (\<lambda>f t. None)\<rparr>" "''t''"
      "\<lparr>last_processed_block = 0, last_block_file = No_file\<rparr>"]
  by simp




text \<open>
  A poll cycle whose event query yields an empty batch (no log in the range, the ledger
  query raised and was caught, a log failed to parse, or the range was empty) returns the
  poller unchanged: the in-memory \<open>last_processed_block\<close> and the block file are what
  they were.
\<close>

lemma poll_once_empty_batch_unchanged:
  assumes "eth_block_number node = Some current_block"
    and "get_new_events cfg node now p None (Some current_block) = Inr ([], queries)"
  shows "poll_once cfg node w now p = (p, [], queries)"
  using assms by (simp add: poll_once_def)

text \<open>Whenever \<open>poll_once\<close> changes the poller, the event query of the cycle found an
  event.\<close>

lemma poll_once_change_needs_events:
  assumes "fst (poll_once cfg node w now p) \<noteq> p"
  shows "\<exists>current_block events queries.
           eth_block_number node = Some current_block \<and>
           get_new_events cfg node now p None (Some current_block) = Inr (events, queries) \<and>
           events \<noteq> []"
  using assms by (auto simp: poll_once_def split: option.splits sum.splits if_splits)

text \<open>
  C10. The claim: the checkpoint advances only on cycles that return at least one event.
  \<open>poll_once\<close> assigns \<open>last_processed_block\<close> before it writes the block file, and
  the handler of the cycle returns the empty list for every exception. With the
  checkpoint at 100, the chain at height 150 and one deposit in block 120, a cycle whose
  block file cannot be written returns no event, yet leaves \<open>last_processed_block\<close> at
  150; the file keeps 100 when it could not be opened and is empty when the write failed
  after opening. The deposit is not returned by this cycle and lies below the checkpoint
  of the next one.
\<close>

theorem poll_once_failed_save_advances_checkpoint:
  "poll_once default_config live_ledger Fails_before_open ''t'' poller_at_100
     = (\<lparr>last_processed_block = 150, last_block_file = Saved 100\<rparr>, [], [(101, 150)])
   \<and> poll_once default_config live_ledger Fails_after_open ''t'' poller_at_100
     = (\<lparr>last_processed_block = 150, last_block_file = Empty_file\<rparr>, [], [(101, 150)])
   \<and> last_processed_block poller_at_100 = 100"
  by (simp add: poll_once_def get_new_events_def live_ledger_def default_config_def
      poller_at_100_def recent_log_def deposit_log_def parse_event_def subscript_def
      get_default_def raising_def save_last_processed_block_def after_failed_save_def)

text \<open>
  C2. The claim: the height that a poll cycle saves never exceeds the highest block
  whose events were queried, also when the range was clamped. The code saves
  \<open>current_block\<close>, the chain height read at the start of the cycle, while
  \<open>get_new_events\<close> clamps its own copy of \<open>to_block\<close>. With the checkpoint at 0,
  the chain at height 2000 and a span of 1000, the cycle queries blocks 1 to 1001 only and
  saves 2000, in memory and in the file.
\<close>

theorem poll_once_saves_past_clamped_range:
  "last_processed_block
     (fst (poll_once default_config busy_ledger Write_ok ''t''
             \<lparr>last_processed_block = 0, last_block_file = No_file\<rparr>)) = 2000
   \<and> last_block_file
     (fst (poll_once default_config busy_ledger Write_ok ''t''
             \<lparr>last_processed_block = 0, last_block_file = No_file\<rparr>)) = Saved 2000
   \<and> snd (snd (poll_once default_config busy_ledger Write_ok ''t''
                  \<lparr>last_processed_block = 0, last_block_file = No_file\<rparr>)) = [(1, 1001)]"
  by (simp add: poll_once_def get_new_events_def busy_ledger_def default_config_def
      deposit_log_def parse_event_def subscript_def get_default_def raising_def
      save_last_processed_block_def)

section \<open>Properties of the price aggregator\<close>

lemma upper_btc: "upper ''btc'' = ''BTC''" "upper ''BTC'' = ''BTC''"
  by (simp_all add: upper_def upper_char_def lower_letters_def upper_letters_def get_default_def)

text \<open>
  The cache of \<open>aggregator_with_btc\<close> is the one that a first, successful
  \<open>get_price\<close> leaves behind when Binance is the source that answers.
\<close>

lemma first_call_fills_cache:
  "get_price feeds_binance_up clock_1000 new_aggregator ''btc'' True
     = (Inr btc_quote, aggregator_with_btc, [''FTSO'', ''CoinGecko'', ''Binance''])"
  by (simp add: get_price_def Let_def upper_btc is_cache_valid_def new_aggregator_def sources_def
      get_from_ftso_def get_from_coingecko_def get_from_binance_def feeds_binance_up_def
      clock_1000_def btc_quote_def aggregator_with_btc_def get_token_info_def
      SUPPORTED_TOKENS_def)

lemma sources_all_fail:
  assumes "get_from_ftso feeds s = None"
    and "get_from_coingecko feeds s = None"
    and "get_from_binance feeds clk s = None"
  shows "try_sources (sources feeds clk) s = (None, [''FTSO'', ''CoinGecko'', ''Binance''])"
  using assms by (simp add: sources_def)

text \<open>A valid cache entry is returned as it is, and no source is called.\<close>

lemma get_price_valid_cache:
  assumes "is_cache_valid clk agg (upper s) = Inr True"
  shows "\<exists>cached. map_of (price_cache agg) (upper s) = Some cached
           \<and> get_price feeds clk agg s True = (Inr cached, agg, [])"
  using assms
  by (auto simp: get_price_def is_cache_valid_def Let_def split: option.splits pyval.splits)

text \<open>
  When every source fails for the symbol and the cache plays no part (the call has
  \<open>use_cache\<close> off, or the cache has no entry for the symbol), \<open>get_price\<close> calls
  the three sources in order and returns the quote with price 0, \<open>success = False\<close> and
  source \<open>none\<close>; it leaves the cache as it was.
\<close>

lemma get_price_sources_fail_without_entry:
  assumes "get_from_ftso feeds (upper s) = None"
    and "get_from_coingecko feeds (upper s) = None"
    and "get_from_binance feeds clk (upper s) = None"
    and "use_cache \<longrightarrow> map_of (price_cache agg) (upper s) = None"
  shows "get_price feeds clk agg s use_cache
           = (Inr \<lparr>symbol = upper s,
                   price = 0,
                   quote_timestamp = Str (utcnow_isoformat clk @ ''Z''),
                   source = ''none'',
                   success = False,
                   timestamp_unix = None,
                   quote_error = Some ''All price sources failed''\<rparr>,
              agg, [''FTSO'', ''CoinGecko'', ''Binance''])"
proof -
  have "(if use_cache then is_cache_valid clk agg (upper s) else Inr False) = Inr False"
    using assms(4) by (simp add: is_cache_valid_def)
  then show ?thesis
    using sources_all_fail [OF assms(1-3)] by (simp add: get_price_def Let_def)
qed

text \<open>\<open>get_price\<close> raises exactly when it consults the cache and the check raises.\<close>

lemma get_price_raises_iff:
  "(\<exists>err. fst (get_price feeds clk agg s use_cache) = Inl err)
     \<longleftrightarrow> use_cache \<and> (\<exists>err. is_cache_valid clk agg (upper s) = Inl err)"
  by (auto simp: get_price_def is_cache_valid_def Let_def
      split: option.splits pyval.splits sum.splits bool.splits prod.splits if_splits)

text \<open>
  C3. The claim: when every source fails, \<open>get_price\<close> returns the zero quote and
  never raises. After a first call that cached a Binance answer for BTC, and with every
  source down one second later, \<open>get_price\<close> raises \<open>TypeError\<close> out of
  \<open>_is_cache_valid\<close>, which subtracts the cached ISO text from \<open>time.time()\<close>
  outside any handler. No source is called and no quote is returned.
\<close>

theorem get_price_all_sources_fail_raises:
  "get_from_ftso feeds_down (upper ''BTC'') = None \<and>
   get_from_coingecko feeds_down (upper ''BTC'') = None \<and>
   get_from_binance feeds_down clock_1001 (upper ''BTC'') = None \<and>
   get_price feeds_down clock_1001
     (fst (snd (get_price feeds_binance_up clock_1000 new_aggregator ''BTC'' True))) ''BTC'' True
     = (Inl TypeError, aggregator_with_btc, [])"
proof -
  have "get_price feeds_binance_up clock_1000 new_aggregator ''BTC'' True
          = (Inr btc_quote, aggregator_with_btc, [''FTSO'', ''CoinGecko'', ''Binance''])"
    by (simp add: get_price_def Let_def upper_btc is_cache_valid_def new_aggregator_def
        sources_def get_from_ftso_def get_from_coingecko_def get_from_binance_def
        feeds_binance_up_def clock_1000_def btc_quote_def aggregator_with_btc_def
        get_token_info_def SUPPORTED_TOKENS_def)
  then show ?thesis
    by (simp add: get_price_def Let_def upper_btc is_cache_valid_def aggregator_with_btc_def
        btc_quote_def get_from_ftso_def get_from_coingecko_def get_from_binance_def
        feeds_down_def split: option.split)
qed

text \<open>
  C4. The claim: a second \<open>get_price\<close> for the same symbol within the TTL of a first,
  successful one returns the cached quote and calls no source. \<open>get_price\<close> stores the
  time of caching under \<open>timestamp_unix\<close>, but \<open>_is_cache_valid\<close> reads
  \<open>timestamp\<close>, the ISO text that the Binance and CoinGecko sources return, and
  subtracts it from \<open>time.time()\<close>. The second call, one second after the first, raises
  \<open>TypeError\<close>; so does a call after the TTL has passed, without any source attempt.
\<close>

theorem get_price_second_call_raises:
  "get_price feeds_binance_up clock_1001
     (fst (snd (get_price feeds_binance_up clock_1000 new_aggregator ''BTC'' True))) ''BTC'' True
     = (Inl TypeError, aggregator_with_btc, [])
   \<and> get_price feeds_binance_up clock_2000
     (fst (snd (get_price feeds_binance_up clock_1000 new_aggregator ''BTC'' True))) ''BTC'' True
     = (Inl TypeError, aggregator_with_btc, [])"
proof -
  have "get_price feeds_binance_up clock_1000 new_aggregator ''BTC'' True
          = (Inr btc_quote, aggregator_with_btc, [''FTSO'', ''CoinGecko'', ''Binance''])"
    by (simp add: get_price_def Let_def upper_btc is_cache_valid_def new_aggregator_def sources_def
        get_from_ftso_def get_from_coingecko_def get_from_binance_def feeds_binance_up_def
        clock_1000_def btc_quote_def aggregator_with_btc_def get_token_info_def
        SUPPORTED_TOKENS_def)
  then show ?thesis
    by (simp add: get_price_def Let_def upper_btc is_cache_valid_def aggregator_with_btc_def
        btc_quote_def)
qed


section \<open>Properties of the analysis stage\<close>

lemma lower_sample: "lower ''Sample tweet content for testing'' = ''sample tweet content for testing''"
  by (simp add: lower_def lower_char_def lower_letters_def upper_letters_def get_default_def)

lemma lower_positive: "lower ''positive'' = ''positive''"
  by (simp add: lower_def lower_char_def lower_letters_def upper_letters_def get_default_def)

lemma no_keyword_in_sample:
  "filter (\<lambda>kw. contains kw ''sample tweet content for testing'') controversy_keywords = []"
  by code_simp

text \<open>The dict of \<open>analyze_multimodal\<close> is not empty and has no key \<open>controversy_score\<close>.\<close>

lemma analyze_multimodal_keys:
  assumes "analyze_multimodal a t = Inr s"
  shows "s \<noteq> [] \<and> map_of s ''controversy_score'' = None"
  using assms
  by (auto simp: analyze_multimodal_def Let_def raising_def subscript_def
      split: option.splits)

text \<open>The dict of the module-level \<open>analyze_tweet_sentiment\<close> has the key.\<close>

lemma analyze_tweet_sentiment_has_key:
  assumes "analyze_tweet_sentiment a t = Inr s"
  shows "\<exists>c. get_controversy_score a t = Inr c
           \<and> map_of s ''controversy_score'' = Some (Float_val c)"
  using assms
  by (auto simp: analyze_tweet_sentiment_def raising_def update_Some_unfold map_of_eq_None_iff
      split: sum.splits)

text \<open>
  What \<open>analyze_tweet_content\<close> computes: the deletion likelihood alone without a
  sentiment dict, and six tenths of it with one.
\<close>

lemma combined_controversy_value:
  assumes "analyze_tweet_content d w tw = Inr an"
  shows "combined_controversy an
           = (if sentiment an = None then deletion_likelihood an
              else deletion_likelihood an * (6 / 10))"
proof -
  from assms obtain ds remark where a: "analyze_tweet w (td_content tw) = Some (ds, remark)"
    by (auto simp: analyze_tweet_content_def Let_def split: option.splits)
  show ?thesis
  proof (cases "sentiment_analyzer d")
    case None
    with assms a show ?thesis
      by (auto simp: analyze_tweet_content_def Let_def raising_def)
  next
    case (Some sa)
    show ?thesis
    proof (cases "analyze_multimodal sa (td_content tw)")
      case (Inl e)
      with assms a Some show ?thesis
        by (auto simp: analyze_tweet_content_def Let_def raising_def)
    next
      case (Inr s)
      from analyze_multimodal_keys [OF Inr]
      have k: "s \<noteq> []" "map_of s ''controversy_score'' = None" by simp_all
      with assms a Some Inr show ?thesis
        by (auto simp: analyze_tweet_content_def Let_def raising_def number_get_def
            split: sum.splits)
    qed
  qed
qed

lemma combined_controversy_bounds:
  assumes "analyze_tweet_content d w tw = Inr an"
    and "0 \<le> deletion_likelihood an" and "deletion_likelihood an \<le> 1"
  shows "0 \<le> combined_controversy an \<and> combined_controversy an \<le> 1"
  using combined_controversy_value [OF assms(1)] assms(2,3) by auto

text \<open>
  C1. The claim: with a successful secondary signal the combined score is
  \<open>0.6 * primary + 0.4 * secondary\<close>. \<open>analyze_tweet_content\<close> reads the secondary
  score with \<open>sentiment.get("controversy_score", 0)\<close>, but the dict of
  \<open>analyze_multimodal\<close> has no such key, and the value of \<open>get_controversy_score\<close>
  is only logged. For a text with primary score 0.5 on which both sentiment models agree,
  the sentiment controversy score is 0.4 and the code returns 0.3; the weighted blend of
  the claim is 0.46.
\<close>

theorem combined_score_ignores_sentiment:
  "get_controversy_score agreeing_analyzer (td_content sample_tweet) = Inr (4 / 10)
   \<and> (case analyze_tweet_content daemon_with_sentiment world_half sample_tweet of
        Inl err \<Rightarrow> False
      | Inr an \<Rightarrow> deletion_likelihood an = 5 / 10
                 \<and> sentiment an \<noteq> None
                 \<and> combined_controversy an = 3 / 10
                 \<and> combined_controversy an \<noteq> 6 / 10 * (5 / 10) + 4 / 10 * (4 / 10))"
proof -
  have m: "analyze_multimodal agreeing_analyzer ''Sample tweet content for testing''
             = Inr [(''financial'',
                      Dict_val \<lparr>label = ''positive'', score = 1, model = ''finbert'',
                                 has_error = False\<rparr>),
                    (''twitter'',
                      Dict_val \<lparr>label = ''positive'', score = 1, model = ''twitter-roberta'',
                                 has_error = False\<rparr>),
                    (''combined_label'', Str_val ''positive''),
                    (''combined_score'', Float_val 1),
                    (''confidence'', Float_val 1),
                    (''text_length'', Int_val 32)]"
    by (simp add: analyze_multimodal_def Let_def raising_def subscript_def sentiment_map_def
        analyze_financial_sentiment_def analyze_twitter_sentiment_def agreeing_analyzer_def
        model_input_def lower_positive)
  have c: "get_controversy_score agreeing_analyzer ''Sample tweet content for testing''
             = Inr (4 / 10)"
    by (simp add: get_controversy_score_def m raising_def number_at_def Let_def lower_sample
        no_keyword_in_sample del: contains.simps)
  have "analyze_tweet_content daemon_with_sentiment world_half sample_tweet
          = Inr \<lparr>deletion_likelihood = 1 / 2,
                 analysis_text = ''analysis'',
                 sentiment = Some [(''financial'',
                      Dict_val \<lparr>label = ''positive'', score = 1, model = ''finbert'',
                                 has_error = False\<rparr>),
                    (''twitter'',
                      Dict_val \<lparr>label = ''positive'', score = 1, model = ''twitter-roberta'',
                                 has_error = False\<rparr>),
                    (''combined_label'', Str_val ''positive''),
                    (''combined_score'', Float_val 1),
                    (''confidence'', Float_val 1),
                    (''text_length'', Int_val 32)],
                 ecosystem = None,
                 combined_controversy = 3 / 10\<rparr>"
    by (simp add: analyze_tweet_content_def sample_tweet_def daemon_with_sentiment_def
        world_half_def m c raising_def number_get_def Let_def)
  with c show ?thesis by (simp add: sample_tweet_def)
qed


section \<open>Properties of the daemon\<close>

subsection \<open>Locators\<close>

lemma contains_first_char:
  "contains (p # ps) s \<Longrightarrow> p \<in> set s"
  by (induction s) auto

lemma keeps_non_space:
  "c \<in> set s \<Longrightarrow> \<not> isspace c \<Longrightarrow> c \<in> set (dropWhile isspace s)"
  by (induction s) auto

lemma strip_not_empty:
  assumes "c \<in> set s" and "\<not> isspace c"
  shows "strip s \<noteq> []"
proof -
  from keeps_non_space [OF assms] have "c \<in> set (rev (dropWhile isspace s))" by simp
  from keeps_non_space [OF this assms(2)]
  have "c \<in> set (dropWhile isspace (rev (dropWhile isspace s)))" .
  then have "dropWhile isspace (rev (dropWhile isspace s)) \<noteq> []"
    by (metis empty_iff empty_set)
  then show ?thesis
    by (simp only: strip_def rev_is_Nil_conv not_False_eq_True)
qed

lemma letters_not_space: "\<not> isspace CHR ''t''" "\<not> isspace CHR ''x''"
  by (simp_all add: isspace_def)

lemma extract_tweet_url_not_empty:
  assumes "extract_tweet_url ev = Some url"
  shows "url \<noteq> []"
proof -
  from assms have u: "url = strip (validation ev)"
    and "contains ''twitter.com'' (validation ev) \<or> contains ''x.com'' (validation ev)"
    by (auto simp: extract_tweet_url_def split: if_splits)
  then have "CHR ''t'' \<in> set (validation ev) \<or> CHR ''x'' \<in> set (validation ev)"
    using contains_first_char by blast
  then have "strip (validation ev) \<noteq> []"
    using strip_not_empty letters_not_space by blast
  with u show ?thesis by simp
qed

lemma extract_link: "contains ''x.com'' ''https://x.com/user/status/123''"
  by code_simp

lemma extract_no_link:
  "\<not> contains ''twitter.com'' ''not a link''" "\<not> contains ''x.com'' ''not a link''"
  by code_simp+

lemma strip_link: "strip ''https://x.com/user/status/123'' = ''https://x.com/user/status/123''"
  by code_simp

subsection \<open>Stages of one event\<close>

lemma resubmissions_append:
  "resubmissions (xs @ ys) = resubmissions xs @ resubmissions ys"
  by (induction xs rule: resubmissions.induct) simp_all

lemma registry_writes_append:
  "registry_writes (xs @ ys) = registry_writes xs @ registry_writes ys"
  by (induction xs rule: registry_writes.induct) simp_all

lemma resubmissions_price [simp]: "resubmissions (map Price_source xs) = []"
  by (induction xs) simp_all

lemma registry_writes_price [simp]: "registry_writes (map Price_source xs) = []"
  by (induction xs) simp_all

lemma resubmissions_registry [simp]: "resubmissions (map Registry cs) = []"
  by (induction cs) simp_all

lemma registry_writes_registry: "registry_writes (map Registry cs) = filter is_write cs"
  by (induction cs) simp_all

text \<open>\<open>store_to_filecoin\<close> changes nothing of the daemon but the price cache, and
  issues neither a resubmission nor a registry call.\<close>

lemma store_to_filecoin_frame:
  assumes "store_to_filecoin d w clk tw an = (r, d2, acts2)"
  shows "registry d2 = registry d \<and> submitter d2 = submitter d \<and> stats d2 = stats d
         \<and> resubmissions acts2 = [] \<and> registry_writes acts2 = []"
  using assms
  by (auto simp: store_to_filecoin_def Let_def resubmissions_append registry_writes_append
      split: option.splits if_splits prod.splits)

text \<open>With the hash reported present, \<open>store_tweet\<close> returns \<open>None\<close> after the check.\<close>

lemma store_tweet_duplicate:
  assumes "contract_exists reg (keccak reg (oc_tweetURL data)) = Some True"
  shows "store_tweet reg data = (Inr None, [Exists_call (keccak reg (oc_tweetURL data))])"
  using assms by (simp add: store_tweet_def Let_def)

lemma store_on_chain_duplicate:
  assumes "registry d = Some reg"
    and "contract_exists reg (keccak reg (td_url tw)) = Some True"
  shows "store_on_chain d clk tw an sr sub
           = (None, stats d,
              (case ecosystem an of None \<Rightarrow> []
               | Some eco \<Rightarrow> [Exists_call (keccak reg (td_url tw))]))"
  using assms
  by (simp add: store_on_chain_def Let_def store_tweet_duplicate split: option.split)

lemma resubmit_calls:
  "resubmissions (snd (resubmit cfg d url c))
     = (if submitter d \<noteq> None \<and> c \<ge> AUTO_SUBMIT_THRESHOLD cfg then [(url, c)] else [])"
  by (simp add: resubmit_def split: option.split)

lemma resubmit_frame:
  "errors (fst (resubmit cfg d url c)) = errors (stats d)
   \<and> tweets_registered (fst (resubmit cfg d url c)) = tweets_registered (stats d)
   \<and> registry_writes (snd (resubmit cfg d url c)) = []"
  by (simp add: resubmit_def split: option.split)

lemma store_on_chain_resubmitted:
  "tweets_resubmitted (fst (snd (store_on_chain d clk tw an sr sub)))
     = tweets_resubmitted (stats d)"
  by (simp add: store_on_chain_def Let_def split: option.split prod.split sum.split)

lemma resubmit_count:
  "tweets_resubmitted (fst (resubmit cfg d url c))
     = tweets_resubmitted (stats d)
       + (case submitter d of
            None \<Rightarrow> 0
          | Some s \<Rightarrow> if c \<ge> AUTO_SUBMIT_THRESHOLD cfg \<and> submit_tweet s url c \<noteq> None
                      then 1 else 0)"
  by (simp add: resubmit_def split: option.split)

text \<open>The shape of \<open>process_tweet_event\<close> for an event that gets past storage.\<close>

lemma process_past_storage:
  assumes "extract_tweet_url ev = Some url"
    and "scrape_single_tweet clk url = Some tw"
    and "analyze_tweet_content (count_processed d) w tw = Inr an"
    and "store_to_filecoin (count_processed d) w clk tw an = (Inr sr, d2, acts2)"
    and "store_on_chain (count_stored d2) clk tw an sr (Some (depositor ev)) = (tx, stats4, calls)"
  shows "process_tweet_event cfg d w clk ev
           = ((count_stored d2)\<lparr>stats :=
                 fst (resubmit cfg ((count_stored d2)\<lparr>stats := stats4\<rparr>) url
                        (combined_controversy an))\<rparr>,
              [Scrape url, Analyze (td_content tw)] @ acts2 @ map Registry calls
                @ snd (resubmit cfg ((count_stored d2)\<lparr>stats := stats4\<rparr>) url
                         (combined_controversy an)))"
  using assms extract_tweet_url_not_empty [OF assms(1)]
  by (simp add: process_tweet_event_def Let_def split: prod.split)

lemma link_event_url:
  "extract_tweet_url link_event = Some ''https://x.com/user/status/123''"
  by (simp add: extract_tweet_url_def link_event_def extract_link strip_link
      del: contains.simps)

lemma link_event_scrape:
  "scrape_single_tweet clock_1000 ''https://x.com/user/status/123'' = Some sample_tweet"
  by (simp add: scrape_single_tweet_def clock_1000_def sample_tweet_def last_segment_def)

lemma full_daemon_analysis:
  "analyze_tweet_content (count_processed full_daemon) world_hot sample_tweet = Inr hot_analysis"
  by (simp add: analyze_tweet_content_def count_processed_def full_daemon_def world_hot_def
      btc_classifier_def hot_analysis_def raising_def Let_def)

lemma full_daemon_storage:
  "store_to_filecoin (count_processed full_daemon) world_hot clock_1000 sample_tweet hot_analysis
     = (Inr sample_storage_result, count_processed full_daemon,
        [Price_source ''FTSO'', Price_source ''CoinGecko'', Price_source ''Binance'',
         Store_file])"
  by (simp add: store_to_filecoin_def Let_def count_processed_def full_daemon_def
      world_hot_def hot_analysis_def get_price_def upper_btc is_cache_valid_def
      new_aggregator_def sources_def get_from_ftso_def get_from_coingecko_def
      get_from_binance_def feeds_down_def get_token_info_def SUPPORTED_TOKENS_def)

text \<open>
  C7. For a record whose hash the registry's \<open>exists\<close> check reports as present: when
  an event has passed extraction, scraping, analysis and storage, the register stage
  (\<open>store_on_chain\<close>) returns \<open>None\<close>, leaves the statistics as they are and
  sends no transaction; the whole event issues no registry write, and its error counter
  and its count of registered tweets are those from before the event.
\<close>

theorem duplicate_record_is_skipped:
  assumes "extract_tweet_url ev = Some url"
    and "scrape_single_tweet clk url = Some tw"
    and "analyze_tweet_content (count_processed d) w tw = Inr an"
    and "store_to_filecoin (count_processed d) w clk tw an = (Inr sr, d2, acts2)"
    and "registry d = Some reg"
    and "contract_exists reg (keccak reg url) = Some True"
  shows "fst (store_on_chain (count_stored d2) clk tw an sr (Some (depositor ev))) = None
       \<and> fst (snd (store_on_chain (count_stored d2) clk tw an sr (Some (depositor ev))))
           = stats (count_stored d2)
       \<and> filter is_write
           (snd (snd (store_on_chain (count_stored d2) clk tw an sr (Some (depositor ev))))) = []
       \<and> registry_writes (snd (process_tweet_event cfg d w clk ev)) = []
       \<and> errors (stats (fst (process_tweet_event cfg d w clk ev))) = errors (stats d)
       \<and> tweets_registered (stats (fst (process_tweet_event cfg d w clk ev)))
           = tweets_registered (stats d)"
proof -
  from assms(2) have u: "td_url tw = url"
    by (auto simp: scrape_single_tweet_def)
  from store_to_filecoin_frame [OF assms(4)]
  have f: "registry d2 = registry (count_processed d)" "stats d2 = stats (count_processed d)"
    "registry_writes acts2 = []"
    by simp_all
  have r: "registry (count_stored d2) = Some reg"
    using f(1) assms(5) by (simp add: count_stored_def count_processed_def)
  let ?calls = "case ecosystem an of None \<Rightarrow> []
                | Some eco \<Rightarrow> [Exists_call (keccak reg (td_url tw))]"
  have s: "store_on_chain (count_stored d2) clk tw an sr (Some (depositor ev))
             = (None, stats (count_stored d2), ?calls)"
    using store_on_chain_duplicate [OF r] assms(6) u by simp
  have w: "filter is_write ?calls = []"
    by (simp split: option.split)
  have p: "process_tweet_event cfg d w clk ev
             = ((count_stored d2)\<lparr>stats :=
                   fst (resubmit cfg ((count_stored d2)\<lparr>stats := stats (count_stored d2)\<rparr>) url
                          (combined_controversy an))\<rparr>,
                [Scrape url, Analyze (td_content tw)] @ acts2 @ map Registry ?calls
                  @ snd (resubmit cfg ((count_stored d2)\<lparr>stats := stats (count_stored d2)\<rparr>) url
                           (combined_controversy an)))"
    by (rule process_past_storage [OF assms(1-4) s])
  have e: "errors (stats (count_stored d2)) = errors (stats d)"
    "tweets_registered (stats (count_stored d2)) = tweets_registered (stats d)"
    using f(2) by (simp_all add: count_stored_def count_processed_def)
  show ?thesis
    using s w e f(3) resubmit_frame
    by (simp add: p registry_writes_append registry_writes_registry)
qed

theorem duplicate_record_is_skipped_witness:
  "extract_tweet_url link_event = Some ''https://x.com/user/status/123''
   \<and> scrape_single_tweet clock_1000 ''https://x.com/user/status/123'' = Some sample_tweet
   \<and> analyze_tweet_content (count_processed full_daemon) world_hot sample_tweet
       = Inr hot_analysis
   \<and> store_to_filecoin (count_processed full_daemon) world_hot clock_1000 sample_tweet
         hot_analysis
       = (Inr sample_storage_result, count_processed full_daemon,
          [Price_source ''FTSO'', Price_source ''CoinGecko'', Price_source ''Binance'',
           Store_file])
   \<and> registry full_daemon = Some registry_with_all
   \<and> contract_exists registry_with_all
         (keccak registry_with_all ''https://x.com/user/status/123'') = Some True
   \<and> registry_writes
         (snd (process_tweet_event default_config full_daemon world_hot clock_1000 link_event))
       = []
   \<and> errors (stats (fst (process_tweet_event default_config full_daemon world_hot clock_1000
                            link_event))) = 0
   \<and> tweets_registered
         (stats (fst (process_tweet_event default_config full_daemon world_hot clock_1000
                        link_event))) = 0"
proof -
  have r: "registry full_daemon = Some registry_with_all"
    by (simp add: full_daemon_def)
  have x: "contract_exists registry_with_all
             (keccak registry_with_all ''https://x.com/user/status/123'') = Some True"
    by (simp add: registry_with_all_def)
  from duplicate_record_is_skipped
         [OF link_event_url link_event_scrape full_daemon_analysis full_daemon_storage r x,
          of default_config]
  show ?thesis
    using link_event_url link_event_scrape full_daemon_analysis full_daemon_storage r x
    by (simp add: full_daemon_def zero_stats_def)
qed

text \<open>
  C8. For an event that has passed extraction, scraping, analysis and storage: with a
  combined score of 0.80, a threshold of 0.75 and a submitter configured, the calls of
  the event contain exactly one resubmission, with the extracted locator and the score
  0.80, and the count of resubmitted tweets goes up by one exactly when
  \<open>submit_tweet\<close>, applied to that locator and that score, returns. With a combined
  score strictly below the threshold the calls contain no resubmission and the count
  stays. Scores are real numbers here.
\<close>

theorem resubmission_gate:
  assumes "extract_tweet_url ev = Some url"
    and "scrape_single_tweet clk url = Some tw"
    and "analyze_tweet_content (count_processed d) w tw = Inr an"
    and "store_to_filecoin (count_processed d) w clk tw an = (Inr sr, d2, acts2)"
  shows "(combined_controversy an = 8 / 10 \<and> AUTO_SUBMIT_THRESHOLD cfg = 75 / 100
            \<and> submitter d = Some s
          \<longrightarrow> resubmissions (snd (process_tweet_event cfg d w clk ev)) = [(url, 8 / 10)]
              \<and> tweets_resubmitted (stats (fst (process_tweet_event cfg d w clk ev)))
                  = tweets_resubmitted (stats d)
                    + (if submit_tweet s url (8 / 10) = None then 0 else 1))
       \<and> (combined_controversy an < AUTO_SUBMIT_THRESHOLD cfg
          \<longrightarrow> resubmissions (snd (process_tweet_event cfg d w clk ev)) = []
              \<and> tweets_resubmitted (stats (fst (process_tweet_event cfg d w clk ev)))
                  = tweets_resubmitted (stats d))"
proof -
  obtain tx stats4 calls
    where s: "store_on_chain (count_stored d2) clk tw an sr (Some (depositor ev))
                = (tx, stats4, calls)"
    by (cases "store_on_chain (count_stored d2) clk tw an sr (Some (depositor ev))") auto
  let ?d4 = "(count_stored d2)\<lparr>stats := stats4\<rparr>"
  let ?c = "combined_controversy an"
  from store_to_filecoin_frame [OF assms(4)]
  have f: "submitter d2 = submitter (count_processed d)" "resubmissions acts2 = []"
    "stats d2 = stats (count_processed d)"
    by simp_all
  have sub: "submitter ?d4 = submitter d"
    using f(1) by (simp add: count_stored_def count_processed_def)
  have "tweets_resubmitted stats4 = tweets_resubmitted (stats (count_stored d2))"
    using store_on_chain_resubmitted [of "count_stored d2" clk tw an sr "Some (depositor ev)"] s
    by simp
  then have cnt: "tweets_resubmitted stats4 = tweets_resubmitted (stats d)"
    using f(3) by (simp add: count_stored_def count_processed_def)
  have calls: "resubmissions (snd (process_tweet_event cfg d w clk ev))
          = (if submitter d \<noteq> None \<and> ?c \<ge> AUTO_SUBMIT_THRESHOLD cfg
             then [(url, ?c)] else [])"
    by (simp add: process_past_storage [OF assms s] resubmissions_append f(2)
        resubmit_calls sub)
  have count: "tweets_resubmitted (stats (fst (process_tweet_event cfg d w clk ev)))
          = tweets_resubmitted (stats d)
            + (case submitter d of
                 None \<Rightarrow> 0
               | Some s \<Rightarrow> if ?c \<ge> AUTO_SUBMIT_THRESHOLD cfg \<and> submit_tweet s url ?c \<noteq> None
                           then 1 else 0)"
    by (simp add: process_past_storage [OF assms s] resubmit_count sub cnt)
  have hot: "resubmissions (snd (process_tweet_event cfg d w clk ev)) = [(url, 8 / 10)]
       \<and> tweets_resubmitted (stats (fst (process_tweet_event cfg d w clk ev)))
           = tweets_resubmitted (stats d)
             + (if submit_tweet s url (8 / 10) = None then 0 else 1)"
    if h: "?c = 8 / 10 \<and> AUTO_SUBMIT_THRESHOLD cfg = 75 / 100 \<and> submitter d = Some s"
  proof -
    from h have g: "?c \<ge> AUTO_SUBMIT_THRESHOLD cfg" by simp
    from h have e: "?c = 8 / 10" and sd: "submitter d = Some s" by simp_all
    from calls g sd have "resubmissions (snd (process_tweet_event cfg d w clk ev)) = [(url, ?c)]"
      by simp
    moreover from count g sd
    have "tweets_resubmitted (stats (fst (process_tweet_event cfg d w clk ev)))
            = tweets_resubmitted (stats d) + (if submit_tweet s url ?c = None then 0 else 1)"
      by simp
    ultimately show ?thesis by (simp only: e)
  qed
  have cold: "resubmissions (snd (process_tweet_event cfg d w clk ev)) = []
       \<and> tweets_resubmitted (stats (fst (process_tweet_event cfg d w clk ev)))
           = tweets_resubmitted (stats d)"
    if h: "?c < AUTO_SUBMIT_THRESHOLD cfg"
  proof -
    from h have g: "\<not> ?c \<ge> AUTO_SUBMIT_THRESHOLD cfg" by simp
    from calls count g show ?thesis by (simp split: option.split)
  qed
  from hot cold show ?thesis by blast
qed

theorem resubmission_gate_witness:
  "extract_tweet_url link_event = Some ''https://x.com/user/status/123''
   \<and> scrape_single_tweet clock_1000 ''https://x.com/user/status/123'' = Some sample_tweet
   \<and> analyze_tweet_content (count_processed full_daemon) world_hot sample_tweet
       = Inr hot_analysis
   \<and> store_to_filecoin (count_processed full_daemon) world_hot clock_1000 sample_tweet
         hot_analysis
       = (Inr sample_storage_result, count_processed full_daemon,
          [Price_source ''FTSO'', Price_source ''CoinGecko'', Price_source ''Binance'',
           Store_file])
   \<and> combined_controversy hot_analysis = 8 / 10
   \<and> AUTO_SUBMIT_THRESHOLD default_config = 75 / 100
   \<and> submitter full_daemon = Some picky_submitter
   \<and> resubmissions
         (snd (process_tweet_event default_config full_daemon world_hot clock_1000 link_event))
       = [(''https://x.com/user/status/123'', 8 / 10)]
   \<and> tweets_resubmitted
         (stats (fst (process_tweet_event default_config full_daemon world_hot clock_1000
                        link_event))) = 1
   \<and> combined_controversy hot_analysis < AUTO_SUBMIT_THRESHOLD strict_config
   \<and> resubmissions
         (snd (process_tweet_event strict_config full_daemon world_hot clock_1000 link_event))
       = []
   \<and> tweets_resubmitted
         (stats (fst (process_tweet_event strict_config full_daemon world_hot clock_1000
                        link_event))) = 0"
proof -
  have a: "combined_controversy hot_analysis = 8 / 10"
    by (simp add: hot_analysis_def)
  have b: "AUTO_SUBMIT_THRESHOLD default_config = 75 / 100"
    by (simp add: default_config_def)
  have c: "submitter full_daemon = Some picky_submitter"
    by (simp add: full_daemon_def)
  have e: "combined_controversy hot_analysis < AUTO_SUBMIT_THRESHOLD strict_config"
    by (simp add: hot_analysis_def strict_config_def)
  have t: "submit_tweet picky_submitter ''https://x.com/user/status/123'' (8 / 10) \<noteq> None"
    by (simp add: picky_submitter_def)
  have z: "tweets_resubmitted (stats full_daemon) = 0"
    by (simp add: full_daemon_def zero_stats_def)
  note g = resubmission_gate
             [OF link_event_url link_event_scrape full_daemon_analysis full_daemon_storage]
  from g [of default_config picky_submitter] a b c
  have one: "resubmissions
               (snd (process_tweet_event default_config full_daemon world_hot clock_1000
                       link_event))
             = [(''https://x.com/user/status/123'', 8 / 10)]"
    and "tweets_resubmitted
           (stats (fst (process_tweet_event default_config full_daemon world_hot clock_1000
                          link_event)))
         = tweets_resubmitted (stats full_daemon)
           + (if submit_tweet picky_submitter ''https://x.com/user/status/123'' (8 / 10) = None
              then 0 else 1)"
    by blast+
  then have counted: "tweets_resubmitted
           (stats (fst (process_tweet_event default_config full_daemon world_hot clock_1000
                          link_event))) = 1"
    using t z by simp
  from g [of strict_config picky_submitter] e
  have none: "resubmissions
                (snd (process_tweet_event strict_config full_daemon world_hot clock_1000
                        link_event)) = []"
    and "tweets_resubmitted
           (stats (fst (process_tweet_event strict_config full_daemon world_hot clock_1000
                          link_event)))
         = tweets_resubmitted (stats full_daemon)"
    by blast+
  then have kept: "tweets_resubmitted
           (stats (fst (process_tweet_event strict_config full_daemon world_hot clock_1000
                          link_event))) = 0"
    using z by simp
  show ?thesis
    using link_event_url link_event_scrape full_daemon_analysis full_daemon_storage
      a b c e one counted none kept
    by blast
qed

text \<open>
  C9. For an event whose validation string is \<open>https://x.com/user/status/123\<close>,
  \<open>extract_tweet_url\<close> returns exactly that string. For an event whose validation
  string is \<open>not a link\<close> it returns \<open>None\<close>, and \<open>process_tweet_event\<close>
  counts one error and issues no call at all, so no scrape.
\<close>

theorem locator_extraction:
  "(validation ev = ''https://x.com/user/status/123''
      \<longrightarrow> extract_tweet_url ev = Some ''https://x.com/user/status/123'')
   \<and> (validation ev = ''not a link''
      \<longrightarrow> extract_tweet_url ev = None
          \<and> errors (stats (fst (process_tweet_event cfg d w clk ev))) = errors (stats d) + 1
          \<and> scrapes (snd (process_tweet_event cfg d w clk ev)) = []
          \<and> snd (process_tweet_event cfg d w clk ev) = [])"
proof (intro conjI impI)
  assume "validation ev = ''https://x.com/user/status/123''"
  then show "extract_tweet_url ev = Some ''https://x.com/user/status/123''"
    by (simp add: extract_tweet_url_def extract_link strip_link del: contains.simps)
next
  assume v: "validation ev = ''not a link''"
  then show n: "extract_tweet_url ev = None"
    by (simp add: extract_tweet_url_def extract_no_link del: contains.simps)
  then show "errors (stats (fst (process_tweet_event cfg d w clk ev))) = errors (stats d) + 1"
    by (simp add: process_tweet_event_def count_error_def)
  from n show "scrapes (snd (process_tweet_event cfg d w clk ev)) = []"
    by (simp add: process_tweet_event_def)
  from n show "snd (process_tweet_event cfg d w clk ev) = []"
    by (simp add: process_tweet_event_def)
qed

theorem locator_extraction_witness:
  "validation link_event = ''https://x.com/user/status/123''
   \<and> extract_tweet_url link_event = Some ''https://x.com/user/status/123''
   \<and> validation no_link_event = ''not a link''
   \<and> extract_tweet_url no_link_event = None
   \<and> errors (stats (fst (process_tweet_event default_config full_daemon world_hot clock_1000
                            no_link_event))) = 1
   \<and> scrapes (snd (process_tweet_event default_config full_daemon world_hot clock_1000
                     no_link_event)) = []"
proof -
  have a: "validation link_event = ''https://x.com/user/status/123''"
    by (simp add: link_event_def)
  have b: "validation no_link_event = ''not a link''"
    by (simp add: no_link_event_def)
  from locator_extraction [of link_event] a
  have one: "extract_tweet_url link_event = Some ''https://x.com/user/status/123''"
    by blast
  from locator_extraction
         [of no_link_event default_config full_daemon world_hot clock_1000] b
  have two: "extract_tweet_url no_link_event = None"
    "errors (stats (fst (process_tweet_event default_config full_daemon world_hot clock_1000
                           no_link_event))) = errors (stats full_daemon) + 1"
    "scrapes (snd (process_tweet_event default_config full_daemon world_hot clock_1000
                     no_link_event)) = []"
    by blast+
  from two(2) have "errors (stats (fst (process_tweet_event default_config full_daemon
                      world_hot clock_1000 no_link_event))) = 1"
    by (simp add: full_daemon_def zero_stats_def)
  with a b one two show ?thesis by blast
qed


end
